theory Spec2Isabelle
  imports Complex_Main "HOL-Library.Char_ord" "HOL-Library.List_Lexorder" "HOL-Library.Sublist"
begin

section \<open>BizTrack AI service: a shallow embedding\<close>

text \<open>
  The service has three request handlers (\<^verbatim>\<open>main.py\<close>) and a forecaster class
  (\<^verbatim>\<open>forecaster.py\<close>). The libraries they call are not part of the repository, so
  they enter the model as parameters: the time-series library (Prophet), the text
  classifier, the date parser of pandas and the wall clock.

  Conventions of the model.
  \<^item> Python floats are exact rationals (\<^typ>\<open>rat\<close>): sums, products and comparisons are
    those of the decimal values, without binary rounding. A division whose divisor is zero
    is never left to HOL's \<open>x / 0 = 0\<close>: every division of the source has its own branch.
  \<^item> Strings are byte lists; \<^verbatim>\<open>str.lower\<close> is modelled on ASCII letters.
  \<^item> A date is the integer count the library keeps for it (nanoseconds for a pandas
    timestamp, microseconds for a \<^verbatim>\<open>datetime\<close>); the date parser returns such a
    count or raises.
  \<^item> An exception is a value of type \<open>error\<close>, and a function that can raise returns
    \<open>error + 'a\<close> with \<open>Inl\<close> for the exception.
\<close>

datatype error =
    AttributeError
  | IndexError
  | KeyError
  | ZeroDivisionError
  | OverflowError
  | ValueError
  | LibraryError string

subsection \<open>Request schema (main.py, pydantic models)\<close>

record transaction =
  tx_description :: "string option"
  tx_amount :: rat
  tx_date :: string
  tx_vendor :: "string option"

subsection \<open>Strings\<close>

definition lower_char :: "char \<Rightarrow> char" where
  "lower_char c =
     (case map_of (zip ''ABCDEFGHIJKLMNOPQRSTUVWXYZ'' ''abcdefghijklmnopqrstuvwxyz'') c of
        Some l \<Rightarrow> l
      | None \<Rightarrow> c)"

definition lower :: "string \<Rightarrow> string" where
  "lower s = map lower_char s"

text \<open>\<^verbatim>\<open>w in desc\<close> on strings: \<open>w\<close> occurs in \<open>desc\<close> as a contiguous block.\<close>

fun contains :: "string \<Rightarrow> string \<Rightarrow> bool" where
  "contains [] w = (w = [])"
| "contains (c # cs) w = (prefix w (c # cs) \<or> contains cs w)"

text \<open>\<^verbatim>\<open>any(w in desc for w in ws)\<close>\<close>

definition any_in :: "string list \<Rightarrow> string \<Rightarrow> bool" where
  "any_in ws desc = list_ex (contains desc) ws"

subsection \<open>Categorization (main.py, predict_category)\<close>

record category_result =
  cr_description :: "string option"
  suggested_category :: string
  confidence :: rat

text \<open>
  The classifier loaded from \<^verbatim>\<open>categorizer.joblib\<close> is an external object with two
  methods; \<^verbatim>\<open>categorizer_model\<close> is \<open>None\<close> when the file is absent.
\<close>

record classifier =
  clf_predict :: "string option list \<Rightarrow> error + string list"
  clf_predict_proba :: "string option list \<Rightarrow> error + rat list list"

text \<open>The \<^verbatim>\<open>if / elif\<close> chain of the heuristic branch, on the lower-cased description.\<close>

definition heuristic_category :: "string \<Rightarrow> string" where
  "heuristic_category desc =
     (if any_in [''rent'', ''lease'', ''office''] desc then ''rent''
      else if any_in [''salary'', ''wage'', ''pay'', ''staff''] desc then ''salaries''
      else if any_in [''stock'', ''inventory'', ''buy'', ''purchase''] desc then ''stock''
      else if any_in [''uber'', ''fuel'', ''transport'', ''taxi''] desc then ''transport''
      else if any_in [''electric'', ''water'', ''bill'', ''power''] desc then ''utilities''
      else if any_in [''ad'', ''marketing'', ''facebook'', ''google'', ''promo''] desc then ''marketing''
      else ''other'')"

text \<open>
  The loop of the heuristic branch. \<^verbatim>\<open>tx.description.lower()\<close> on a description that
  is \<open>None\<close> raises \<open>AttributeError\<close>; the handler has no \<^verbatim>\<open>try\<close>, so the exception
  leaves it and the results collected so far are lost.
\<close>

fun heuristic_loop :: "transaction list \<Rightarrow> category_result list \<Rightarrow> error + category_result list" where
  "heuristic_loop [] results = Inr results"
| "heuristic_loop (tx # txs) results =
     (case tx_description tx of
        None \<Rightarrow> Inl AttributeError
      | Some d \<Rightarrow>
          (let desc = lower d;
               category = heuristic_category desc
           in heuristic_loop txs
                (results @ [\<lparr>cr_description = tx_description tx,
                             suggested_category = category,
                             confidence = 4 / 10\<rparr>])))"

text \<open>
  \<^verbatim>\<open>[float(p.max()) for p in probs]\<close>: the maximum of an empty row raises, and the bare
  \<^verbatim>\<open>except\<close> around it turns any failure into the default confidences.
\<close>

fun max_rat :: "rat list \<Rightarrow> rat option" where
  "max_rat [] = None"
| "max_rat (x # xs) = (case max_rat xs of None \<Rightarrow> Some x | Some m \<Rightarrow> Some (max x m))"

fun row_maxima :: "rat list list \<Rightarrow> rat list option" where
  "row_maxima [] = Some []"
| "row_maxima (p # ps) =
     (case max_rat p of
        None \<Rightarrow> None
      | Some m \<Rightarrow> (case row_maxima ps of None \<Rightarrow> None | Some ms \<Rightarrow> Some (m # ms)))"

definition model_confidences :: "classifier \<Rightarrow> string option list \<Rightarrow> nat \<Rightarrow> rat list" where
  "model_confidences clf descriptions n =
     (case clf_predict_proba clf descriptions of
        Inl e \<Rightarrow> replicate n (8 / 10)
      | Inr probs \<Rightarrow>
          (case row_maxima probs of None \<Rightarrow> replicate n (8 / 10) | Some cs \<Rightarrow> cs))"

text \<open>\<^verbatim>\<open>for i, tx in enumerate(request.transactions)\<close>; an index past the end raises.\<close>

fun model_loop ::
  "string list \<Rightarrow> rat list \<Rightarrow> nat \<Rightarrow> transaction list \<Rightarrow> category_result list \<Rightarrow>
   error + category_result list" where
  "model_loop predictions confidences i [] results = Inr results"
| "model_loop predictions confidences i (tx # txs) results =
     (if i < length predictions \<and> i < length confidences
      then model_loop predictions confidences (Suc i) txs
             (results @ [\<lparr>cr_description = tx_description tx,
                          suggested_category = predictions ! i,
                          confidence = confidences ! i\<rparr>])
      else Inl IndexError)"

definition predict_category ::
  "classifier option \<Rightarrow> transaction list \<Rightarrow> error + category_result list" where
  "predict_category categorizer_model transactions =
     (case categorizer_model of
        None \<Rightarrow> heuristic_loop transactions []
      | Some clf \<Rightarrow>
          (let descriptions = map tx_description transactions
           in case clf_predict clf descriptions of
                Inl e \<Rightarrow> Inl e
              | Inr predictions \<Rightarrow>
                  model_loop predictions
                    (model_confidences clf descriptions (length predictions)) 0 transactions []))"

subsection \<open>Numbers\<close>

text \<open>
  \<^verbatim>\<open>round(x, 2)\<close> and the format \<^verbatim>\<open>:.1f\<close> round to the nearest decimal of the wanted
  precision, a tie going to the even neighbour.
\<close>

definition round_half_even :: "rat \<Rightarrow> int" where
  "round_half_even x =
     (let f = \<lfloor>x\<rfloor>; d = x - of_int f
      in if d < 1 / 2 then f else if 1 / 2 < d then f + 1 else if even f then f else f + 1)"

definition round2 :: "rat \<Rightarrow> rat" where
  "round2 x = of_int (round_half_even (x * 100)) / 100"

text \<open>
  The values read from a pandas column are numpy floats: dividing one by zero gives
  \<open>inf\<close> or \<open>nan\<close> (with a warning) and does not raise. \<open>NonFinite\<close> stands for both.
\<close>

datatype npfloat = Finite rat | NonFinite



subsection \<open>Data frames and the libraries (forecaster.py)\<close>

text \<open>
  A pandas timestamp is a count of nanoseconds since the epoch; \<^verbatim>\<open>Timedelta.days\<close> is
  the number of whole days of a difference.
\<close>

type_synonym timestamp = int

definition ns_per_day :: int where
  "ns_per_day = 86400000000000"

definition timedelta_days :: "int \<Rightarrow> int" where
  "timedelta_days delta = delta div ns_per_day"

text \<open>A row of the data frame built from a history, after the renaming of the columns.\<close>

record df_row =
  df_description :: "string option"
  df_y :: rat
  df_ds :: timestamp
  df_vendor :: "string option"

record prophet_config =
  daily_seasonality :: bool
  weekly_seasonality :: bool
  yearly_seasonality :: bool

text \<open>
  The \<^verbatim>\<open>ds\<close> entry of a prediction is a timestamp on the model path and the text
  \<^verbatim>\<open>strftime('%Y-%m-%d')\<close> of a date on the fallback path. That text names one
  calendar day; the model keeps the number of the day (days since 0001-01-01) in its place.
\<close>

datatype ds_value = Timestamp int | DateString int

record forecast_point =
  fp_ds :: ds_value
  yhat :: rat
  yhat_lower :: rat
  yhat_upper :: rat

text \<open>
  The calls that leave the repository: \<^verbatim>\<open>pd.to_datetime\<close>, \<^verbatim>\<open>Prophet(...).fit\<close>,
  \<^verbatim>\<open>make_future_dataframe\<close> and \<^verbatim>\<open>predict\<close>. Each may raise. \<open>'m\<close> is the fitted
  model; \<^verbatim>\<open>predict\<close> returns the rows of its output frame (history and future together),
  of which the source reads four columns.
\<close>

record 'm libraries =
  to_datetime :: "string \<Rightarrow> error + timestamp"
  prophet_fit :: "prophet_config \<Rightarrow> df_row list \<Rightarrow> error + 'm"
  make_future_dataframe :: "'m \<Rightarrow> int \<Rightarrow> error + timestamp list"
  prophet_predict :: "'m \<Rightarrow> timestamp list \<Rightarrow> error + forecast_point list"

record forecast_result =
  predictions :: "forecast_point list"
  trend_percentage :: npfloat
  seasonality_mode :: string

text \<open>\<^verbatim>\<open>.iloc[i]\<close>: a negative position counts from the end, a position outside raises.\<close>

definition iloc :: "'a list \<Rightarrow> int \<Rightarrow> error + 'a" where
  "iloc xs i =
     (let k = (if i < 0 then int (length xs) + i else i)
      in if k < 0 \<or> int (length xs) \<le> k then Inl IndexError else Inr (xs ! nat k))"

text \<open>
  \<^verbatim>\<open>DataFrame.tail(n)\<close>: no row for \<open>n = 0\<close>, the last \<open>n\<close> rows for a positive \<open>n\<close>
  (all of them when there are fewer), all rows but the first \<open>-n\<close> for a negative \<open>n\<close>.
\<close>

definition tail :: "'a list \<Rightarrow> int \<Rightarrow> 'a list" where
  "tail xs n =
     (if n = 0 then []
      else if 0 < n then drop (length xs - nat n) xs
      else drop (nat (- n)) xs)"

text \<open>Lines 18 and 19 of forecaster.py, and the configuration handed to Prophet.\<close>

definition data_span_days :: "df_row list \<Rightarrow> int" where
  "data_span_days historical_data =
     timedelta_days (Max (set (map df_ds historical_data)) - Min (set (map df_ds historical_data)))"

definition seasonality_selection :: "df_row list \<Rightarrow> prophet_config" where
  "seasonality_selection historical_data =
     \<lparr>daily_seasonality = False,
      weekly_seasonality = True,
      yearly_seasonality = (365 < data_span_days historical_data)\<rparr>"

text \<open>Lines 37 and 44: the trend between two predicted values, rounded.\<close>

definition trend :: "rat \<Rightarrow> rat \<Rightarrow> npfloat" where
  "trend first_yhat last_yhat =
     (if first_yhat + 1 / 1000000 = 0 then NonFinite
      else Finite (round2 (((last_yhat - first_yhat) / (first_yhat + 1 / 1000000)) * 100)))"

text \<open>
  \<^verbatim>\<open>CashFlowForecaster.forecast\<close>. The frame of an empty history has no column
  \<^verbatim>\<open>ds\<close>, so the first line raises \<open>KeyError\<close> on it; the handler never calls the
  method that way.
\<close>

definition forecast :: "'m libraries \<Rightarrow> df_row list \<Rightarrow> int \<Rightarrow> error + forecast_result" where
  "forecast lib historical_data days =
     (if historical_data = [] then Inl KeyError
      else
        let cfg = seasonality_selection historical_data
        in case prophet_fit lib cfg historical_data of
             Inl e \<Rightarrow> Inl e
           | Inr m \<Rightarrow>
        (case make_future_dataframe lib m days of
             Inl e \<Rightarrow> Inl e
           | Inr future \<Rightarrow>
        (case prophet_predict lib m future of
             Inl e \<Rightarrow> Inl e
           | Inr fc \<Rightarrow>
        (case iloc (map yhat fc) (int (length historical_data)) of
             Inl e \<Rightarrow> Inl e
           | Inr first_yhat \<Rightarrow>
        (case iloc (map yhat fc) (- 1) of
             Inl e \<Rightarrow> Inl e
           | Inr last_yhat \<Rightarrow>
               Inr \<lparr>predictions = tail fc days,
                    trend_percentage = trend first_yhat last_yhat,
                    seasonality_mode =
                      (if yearly_seasonality cfg then ''yearly'' else ''weekly'')\<rparr>)))))"

subsection \<open>The fallback generator (forecaster.py)\<close>

text \<open>
  A \<^verbatim>\<open>datetime\<close> is a count of microseconds since 0001-01-01 00:00; the type ends with
  the year 9999, and a sum that leaves it raises \<open>OverflowError\<close>, as does a
  \<^verbatim>\<open>timedelta\<close> of more than 999999999 days.
\<close>

type_synonym datetime = int

definition us_per_day :: int where
  "us_per_day = 86400000000"

definition max_day :: int where
  "max_day = 3652058"

definition day_of :: "datetime \<Rightarrow> int" where
  "day_of t = t div us_per_day"

definition add_days :: "datetime \<Rightarrow> int \<Rightarrow> error + datetime" where
  "add_days start i =
     (if 999999999 < \<bar>i\<bar> then Inl OverflowError
      else
        let t = start + i * us_per_day
        in if day_of t < 0 \<or> max_day < day_of t then Inl OverflowError else Inr t)"

fun fallback_loop :: "datetime \<Rightarrow> int list \<Rightarrow> forecast_point list \<Rightarrow> error + forecast_point list" where
  "fallback_loop start_date [] acc = Inr acc"
| "fallback_loop start_date (i # rest) acc =
     (case add_days start_date i of
        Inl e \<Rightarrow> Inl e
      | Inr target_date \<Rightarrow>
          fallback_loop start_date rest
            (acc @ [\<lparr>fp_ds = DateString (day_of target_date),
                      yhat = 1000, yhat_lower = 800, yhat_upper = 1200\<rparr>]))"

text \<open>
  \<^verbatim>\<open>CashFlowForecaster._generate_fallback_forecast\<close>; the first argument is the value of
  \<^verbatim>\<open>datetime.now()\<close>.
\<close>

definition generate_fallback_forecast :: "datetime \<Rightarrow> int \<Rightarrow> error + forecast_result" where
  "generate_fallback_forecast now days =
     (case fallback_loop now [1..days] [] of
        Inl e \<Rightarrow> Inl e
      | Inr fc \<Rightarrow>
          Inr \<lparr>predictions = fc, trend_percentage = Finite 0, seasonality_mode = ''fallback''\<rparr>)"

subsection \<open>Forecast handler (main.py, predict_forecast)\<close>

record forecast_request =
  business_id :: string
  income_history :: "transaction list"
  expense_history :: "transaction list"
  req_days :: int

record forecast_payload =
  fp_business_id :: string
  income_forecast :: "forecast_point list"
  income_trend :: npfloat
  expense_forecast :: "forecast_point list"
  expense_trend :: npfloat
  seasonality :: string
  fp_message :: string

text \<open>The two shapes of the response: the forecast, or \<^verbatim>\<open>{"error": ..., "message": ...}\<close>.\<close>

datatype forecast_response = Forecast forecast_payload | ForecastError error string

fun to_datetime_column :: "(string \<Rightarrow> error + timestamp) \<Rightarrow> string list \<Rightarrow> error + timestamp list" where
  "to_datetime_column parse [] = Inr []"
| "to_datetime_column parse (s # ss) =
     (case parse s of
        Inl e \<Rightarrow> Inl e
      | Inr t \<Rightarrow> (case to_datetime_column parse ss of Inl e \<Rightarrow> Inl e | Inr ts \<Rightarrow> Inr (t # ts)))"

definition to_row :: "transaction \<Rightarrow> timestamp \<Rightarrow> df_row" where
  "to_row t d =
     \<lparr>df_description = tx_description t, df_y = tx_amount t, df_ds = d, df_vendor = tx_vendor t\<rparr>"

text \<open>
  Steps 1 and 2 of the handler are the same statements, run on \<^verbatim>\<open>income_history\<close> and on
  \<^verbatim>\<open>expense_history\<close>: an empty history gets the literal result with mode \<open>none\<close>, any
  other is parsed, renamed and handed to \<open>forecast\<close>.
\<close>

definition history_forecast :: "'m libraries \<Rightarrow> transaction list \<Rightarrow> int \<Rightarrow> error + forecast_result" where
  "history_forecast lib history n =
     (if history = []
      then Inr \<lparr>predictions = [], trend_percentage = Finite 0, seasonality_mode = ''none''\<rparr>
      else
        case to_datetime_column (to_datetime lib) (map tx_date history) of
          Inl e \<Rightarrow> Inl e
        | Inr dates \<Rightarrow> forecast lib (map2 to_row history dates) n)"

definition predict_forecast :: "'m libraries \<Rightarrow> forecast_request \<Rightarrow> forecast_response" where
  "predict_forecast lib request =
     (case history_forecast lib (income_history request) (req_days request) of
        Inl e \<Rightarrow> ForecastError e ''Failed to generate forecast''
      | Inr income_res \<Rightarrow>
     (case history_forecast lib (expense_history request) (req_days request) of
        Inl e \<Rightarrow> ForecastError e ''Failed to generate forecast''
      | Inr expense_res \<Rightarrow>
          Forecast
            \<lparr>fp_business_id = business_id request,
             income_forecast = predictions income_res,
             income_trend = trend_percentage income_res,
             expense_forecast = predictions expense_res,
             expense_trend = trend_percentage expense_res,
             seasonality = seasonality_mode income_res,
             fp_message = ''Advanced forecast generated successfully''\<rparr>))"

subsection \<open>Insight handler (main.py, predict_insights)\<close>



text \<open>
  \<^verbatim>\<open>df.groupby('description')['amount'].sum().to_dict()\<close>: rows whose key is missing are
  left out, the keys come out sorted, each with the sum of its rows.
\<close>

definition groupby_sum :: "transaction list \<Rightarrow> (string \<times> rat) list" where
  "groupby_sum rows =
     (let keyed = List.map_filter
                    (\<lambda>t. map_option (\<lambda>d. (d, tx_amount t)) (tx_description t)) rows
      in map (\<lambda>k. (k, sum_list (map snd (filter (\<lambda>p. fst p = k) keyed))))
           (sort (remdups (map fst keyed))))"





subsection \<open>The heuristic rules as the specification words them\<close>

text \<open>
  The specification describes the heuristic as an ordered table of keyword sets, the first
  matching rule winning. This second definition follows those words; it is compared with
  the \<^verbatim>\<open>if / elif\<close> chain below.
\<close>

definition keyword_rules :: "(string \<times> string list) list" where
  "keyword_rules =
     [(''rent'', [''rent'', ''lease'', ''office'']),
      (''salaries'', [''salary'', ''wage'', ''pay'', ''staff'']),
      (''stock'', [''stock'', ''inventory'', ''buy'', ''purchase'']),
      (''transport'', [''uber'', ''fuel'', ''transport'', ''taxi'']),
      (''utilities'', [''electric'', ''water'', ''bill'', ''power'']),
      (''marketing'', [''ad'', ''marketing'', ''facebook'', ''google'', ''promo''])]"

definition rule_matches :: "string \<Rightarrow> string \<times> string list \<Rightarrow> bool" where
  "rule_matches description r = (\<exists>w \<in> set (snd r). sublist (lower w) (lower description))"

definition resolve :: "(string \<times> string list) list \<Rightarrow> string \<Rightarrow> string" where
  "resolve rules description =
     (case find (rule_matches description) rules of None \<Rightarrow> ''other'' | Some r \<Rightarrow> fst r)"

definition heuristic_result :: "string \<Rightarrow> category_result" where
  "heuristic_result d =
     \<lparr>cr_description = Some d, suggested_category = resolve keyword_rules d, confidence = 4 / 10\<rparr>"

definition tx :: "string option \<Rightarrow> rat \<Rightarrow> string \<Rightarrow> transaction" where
  "tx d a t = \<lparr>tx_description = d, tx_amount = a, tx_date = t, tx_vendor = None\<rparr>"

subsection \<open>The result of a successful forecast\<close>

text \<open>
  What \<open>forecast\<close> returns when every library call succeeds with an output frame \<open>fc\<close>
  that is longer than the history (on a shorter frame the method raises, see
  \<open>forecast_short_frame\<close>).
\<close>

definition forecast_value :: "df_row list \<Rightarrow> forecast_point list \<Rightarrow> int \<Rightarrow> forecast_result" where
  "forecast_value historical_data fc n =
     \<lparr>predictions = tail fc n,
      trend_percentage = trend (yhat (fc ! length historical_data)) (yhat (last fc)),
      seasonality_mode =
        (if 365 < data_span_days historical_data then ''yearly'' else ''weekly'')\<rparr>"

subsection \<open>A stand-in for the libraries\<close>

text \<open>
  Concrete requests need concrete libraries. The stand-in parses three dates, refuses to
  fit fewer than two rows (as Prophet does), continues the dates of the history day by day
  and predicts a value that grows by one a day.
\<close>

definition sample_dates :: "(string \<times> timestamp) list" where
  "sample_dates =
     [(''2024-01-01'', 19723 * ns_per_day),
      (''2024-01-02'', 19724 * ns_per_day),
      (''2025-06-01'', 20240 * ns_per_day)]"

definition sample_libraries :: "(df_row list) libraries" where
  "sample_libraries =
     \<lparr>to_datetime = (\<lambda>s. case map_of sample_dates s of None \<Rightarrow> Inl ValueError | Some t \<Rightarrow> Inr t),
      prophet_fit = (\<lambda>cfg rows. if length rows < 2 then Inl ValueError else Inr rows),
      make_future_dataframe =
        (\<lambda>m n. Inr (map df_ds m
                     @ map (\<lambda>i. Max (set (map df_ds m)) + i * ns_per_day) [1..n])),
      prophet_predict =
        (\<lambda>m future.
           Inr (map (\<lambda>t. \<lparr>fp_ds = Timestamp t,
                           yhat = of_int (t div ns_per_day - 19623),
                           yhat_lower = of_int (t div ns_per_day - 19633),
                           yhat_upper = of_int (t div ns_per_day - 19613)\<rparr>) future))\<rparr>"

definition sample_history :: "transaction list" where
  "sample_history = [tx (Some ''sales'') 100 ''2024-01-01'', tx (Some ''sales'') 120 ''2024-01-02'']"




subsection \<open>Names for the literal results of the handlers\<close>

definition none_result :: forecast_result where
  "none_result = \<lparr>predictions = [], trend_percentage = Finite 0, seasonality_mode = ''none''\<rparr>"

definition response :: "string \<Rightarrow> forecast_result \<Rightarrow> forecast_result \<Rightarrow> forecast_payload" where
  "response b income_res expense_res =
     \<lparr>fp_business_id = b,
      income_forecast = predictions income_res,
      income_trend = trend_percentage income_res,
      expense_forecast = predictions expense_res,
      expense_trend = trend_percentage expense_res,
      seasonality = seasonality_mode income_res,
      fp_message = ''Advanced forecast generated successfully''\<rparr>"

definition sample_request :: "transaction list \<Rightarrow> transaction list \<Rightarrow> int \<Rightarrow> forecast_request" where
  "sample_request incomes expenses n =
     \<lparr>business_id = ''b1'', income_history = incomes, expense_history = expenses, req_days = n\<rparr>"

definition long_history :: "transaction list" where
  "long_history =
     [tx (Some ''rent'') 500 ''2024-01-01'', tx (Some ''rent'') 520 ''2025-06-01'']"

definition fallback_point :: "int \<Rightarrow> forecast_point" where
  "fallback_point d =
     \<lparr>fp_ds = DateString d, yhat = 1000, yhat_lower = 800, yhat_upper = 1200\<rparr>"

subsection \<open>Names for the parts of the insight computation\<close>






section \<open>Categorization: properties\<close>

lemma contains_iff_sublist: "contains s w \<longleftrightarrow> sublist w s"
  by (induction s) (simp_all add: sublist_Cons_right)

lemma contains_iff: "contains s w \<longleftrightarrow> (\<exists>ps ss. s = ps @ w @ ss)"
  by (simp add: contains_iff_sublist sublist_def)

lemma any_in_iff: "any_in ws desc \<longleftrightarrow> (\<exists>w \<in> set ws. sublist w desc)"
  by (simp add: any_in_def list_ex_iff contains_iff_sublist)

lemma heuristic_category_resolve: "heuristic_category (lower d) = resolve keyword_rules d"
  by (simp add: heuristic_category_def resolve_def keyword_rules_def rule_matches_def
      any_in_iff lower_def lower_char_def)

lemma heuristic_loop_present:
  "map tx_description txs = map Some ds \<Longrightarrow>
   heuristic_loop txs acc = Inr (acc @ map heuristic_result ds)"
proof (induction txs arbitrary: ds acc)
  case Nil
  then show ?case by simp
next
  case (Cons t txs)
  then obtain d ds' where ds: "ds = d # ds'" "tx_description t = Some d"
    "map tx_description txs = map Some ds'"
    by (cases ds) auto
  show ?case
    using Cons.IH [OF ds(3)] ds(1,2)
    by (simp add: heuristic_result_def heuristic_category_resolve)
qed

lemma heuristic_loop_absent:
  "None \<in> tx_description ` set txs \<Longrightarrow> heuristic_loop txs acc = Inl AttributeError"
proof (induction txs arbitrary: acc)
  case Nil
  then show ?case by simp
next
  case (Cons t txs)
  show ?case
  proof (cases "tx_description t")
    case None
    then show ?thesis by simp
  next
    case (Some d)
    with Cons.prems have "None \<in> tx_description ` set txs" by auto
    with Cons.IH Some show ?thesis by simp
  qed
qed



text \<open>
  C10. With no classifier loaded, the handler returns a result exactly for the requests in
  which every transaction has a description; when some description is absent, the call of
  \<open>lower\<close> on \<open>None\<close> raises \<open>AttributeError\<close> and no result is returned.
\<close>

theorem heuristic_raises_on_missing_description:
  "((\<exists>rs. predict_category None txs = Inr rs) \<longleftrightarrow> (\<forall>t \<in> set txs. tx_description t \<noteq> None))
   \<and> ((\<exists>t \<in> set txs. tx_description t = None) \<longrightarrow>
        predict_category None txs = Inl AttributeError)"
proof (cases "None \<in> tx_description ` set txs")
  case True
  then have "predict_category None txs = Inl AttributeError"
    using heuristic_loop_absent [of txs "[]"] by (simp add: predict_category_def)
  moreover from True have "\<exists>t \<in> set txs. tx_description t = None"
    by (metis imageE)
  ultimately show ?thesis by auto
next
  case False
  then have all: "\<forall>t \<in> set txs. tx_description t \<noteq> None"
    by (metis image_eqI)
  then have "map tx_description txs = map Some (map (\<lambda>t. the (tx_description t)) txs)"
    by (induction txs) auto
  then have "\<exists>rs. predict_category None txs = Inr rs"
    using heuristic_loop_present [of txs "map (\<lambda>t. the (tx_description t)) txs" "[]"]
    by (simp add: predict_category_def)
  with all show ?thesis by auto
qed

theorem heuristic_raises_on_missing_description_witness:
  "predict_category None
     [tx (Some ''Office rent'') 1200 ''2024-01-05'', tx None 15 ''2024-01-06'']
   = Inl AttributeError"
  using heuristic_raises_on_missing_description
    [of "[tx (Some ''Office rent'') 1200 ''2024-01-05'', tx None 15 ''2024-01-06'']"]
  by (simp add: tx_def)

section \<open>Forecasting: properties\<close>

subsection \<open>Rounding and the trend\<close>






subsection \<open>The forecast method\<close>

lemma iloc_nat: "iloc xs (int n) = (if n < length xs then Inr (xs ! n) else Inl IndexError)"
  by (simp add: iloc_def)

lemma iloc_last: "iloc xs (- 1) = (if xs = [] then Inl IndexError else Inr (last xs))"
proof (cases "xs = []")
  case True
  then show ?thesis by (simp add: iloc_def)
next
  case False
  then have "0 < length xs" by simp
  then have "nat (int (length xs) - 1) = length xs - 1" by linarith
  with False show ?thesis
    by (simp add: iloc_def last_conv_nth)
qed

lemma forecast_run:
  assumes "h \<noteq> []"
    and "prophet_fit lib (seasonality_selection h) h = Inr m"
    and "make_future_dataframe lib m n = Inr future"
    and "prophet_predict lib m future = Inr fc"
    and "length h < length fc"
  shows "forecast lib h n = Inr (forecast_value h fc n)"
proof -
  from assms(5) have ne: "fc \<noteq> []" by auto
  show ?thesis
    using assms ne
    by (simp add: forecast_def Let_def iloc_nat iloc_last forecast_value_def
        seasonality_selection_def last_map)
qed

lemma forecast_short_frame:
  assumes "h \<noteq> []"
    and "prophet_fit lib (seasonality_selection h) h = Inr m"
    and "make_future_dataframe lib m n = Inr future"
    and "prophet_predict lib m future = Inr fc"
    and "length fc \<le> length h"
  shows "forecast lib h n = Inl IndexError"
  using assms by (simp add: forecast_def Let_def iloc_nat)

lemma forecast_Inr:
  assumes "forecast lib h n = Inr res"
  shows "h \<noteq> [] \<and> (\<exists>m future fc.
           prophet_fit lib (seasonality_selection h) h = Inr m
           \<and> make_future_dataframe lib m n = Inr future
           \<and> prophet_predict lib m future = Inr fc
           \<and> length h < length fc
           \<and> res = forecast_value h fc n)"
proof -
  from assms have ne: "h \<noteq> []"
    by (auto simp: forecast_def split: if_splits)
  from assms ne obtain m where m: "prophet_fit lib (seasonality_selection h) h = Inr m"
    by (cases "prophet_fit lib (seasonality_selection h) h") (auto simp: forecast_def Let_def)
  from assms ne m obtain future where f: "make_future_dataframe lib m n = Inr future"
    by (cases "make_future_dataframe lib m n") (auto simp: forecast_def Let_def)
  from assms ne m f obtain fc where fc: "prophet_predict lib m future = Inr fc"
    by (cases "prophet_predict lib m future") (auto simp: forecast_def Let_def)
  from assms ne m f fc have len: "length h < length fc"
    by (auto simp: forecast_def Let_def iloc_nat split: if_splits)
  from forecast_run [OF ne m f fc len] assms have "res = forecast_value h fc n"
    by simp
  with ne m f fc len show ?thesis by blast
qed





subsection \<open>Seasonality\<close>








subsection \<open>The forecast handler\<close>

lemma history_forecast_empty: "history_forecast lib [] n = Inr none_result"
  by (simp add: history_forecast_def none_result_def)

lemma history_forecast_mode:
  assumes "history_forecast lib h n = Inr res"
  shows "seasonality_mode res = ''none'' \<or> seasonality_mode res = ''weekly''
         \<or> seasonality_mode res = ''yearly''"
proof (cases "h = []")
  case True
  with assms show ?thesis by (auto simp: history_forecast_def)
next
  case False
  with assms obtain dates where "forecast lib (map2 to_row h dates) n = Inr res"
    by (auto simp: history_forecast_def split: sum.splits)
  from forecast_Inr [OF this] show ?thesis
    by (auto simp: forecast_value_def)
qed

lemma to_datetime_column_length:
  "to_datetime_column parse ss = Inr ts \<Longrightarrow> length ts = length ss"
  by (induction ss arbitrary: ts) (auto split: sum.splits)

lemma history_forecast_fit_raises:
  assumes "h \<noteq> []"
    and "to_datetime_column (to_datetime lib) (map tx_date h) = Inr dates"
    and "prophet_fit lib (seasonality_selection (map2 to_row h dates)) (map2 to_row h dates) = Inl e"
  shows "history_forecast lib h n = Inl e"
proof -
  from to_datetime_column_length [OF assms(2)] assms(1) have "map2 to_row h dates \<noteq> []"
    by (cases h; cases dates) auto
  then have "forecast lib (map2 to_row h dates) n = Inl e"
    using assms(3) by (simp add: forecast_def Let_def)
  with assms(1,2) show ?thesis
    by (simp add: history_forecast_def)
qed

lemma predict_forecast_Forecast:
  assumes "predict_forecast lib request = Forecast p"
  shows "\<exists>income_res expense_res.
           history_forecast lib (income_history request) (req_days request) = Inr income_res
           \<and> history_forecast lib (expense_history request) (req_days request) = Inr expense_res
           \<and> p = response (business_id request) income_res expense_res"
  using assms by (auto simp: predict_forecast_def response_def split: sum.splits)

lemma predict_forecast_income_raises:
  "history_forecast lib (income_history request) (req_days request) = Inl e \<Longrightarrow>
   predict_forecast lib request = ForecastError e ''Failed to generate forecast''"
  by (simp add: predict_forecast_def)

lemma predict_forecast_expense_raises:
  "history_forecast lib (income_history request) (req_days request) = Inr r \<Longrightarrow>
   history_forecast lib (expense_history request) (req_days request) = Inl e \<Longrightarrow>
   predict_forecast lib request = ForecastError e ''Failed to generate forecast''"
  by (simp add: predict_forecast_def)

lemma history_forecast_nonempty_mode:
  assumes "h \<noteq> []" and "history_forecast lib h n = Inr res"
  shows "seasonality_mode res = ''weekly'' \<or> seasonality_mode res = ''yearly''"
proof -
  from assms obtain dates where "forecast lib (map2 to_row h dates) n = Inr res"
    by (auto simp: history_forecast_def split: sum.splits)
  from forecast_Inr [OF this] show ?thesis
    by (auto simp: forecast_value_def)
qed

text \<open>
  C1 (what the code does where the claim expects the fallback). When fitting raises on the
  rows of a non-empty income history, as Prophet does on too little data, the handler
  answers with the error payload that carries the exception. No forecast answer has the
  seasonality \<open>fallback\<close>, and none is built from an output of the fallback generator:
  the handler never calls it.
\<close>

theorem insufficient_data_gives_error_payload:
  "(\<forall>dates e.
      income_history request \<noteq> []
      \<and> to_datetime_column (to_datetime lib) (map tx_date (income_history request)) = Inr dates
      \<and> prophet_fit lib (seasonality_selection (map2 to_row (income_history request) dates))
            (map2 to_row (income_history request) dates) = Inl e
      \<longrightarrow> predict_forecast lib request = ForecastError e ''Failed to generate forecast'')
   \<and> (\<forall>p. predict_forecast lib request = Forecast p \<longrightarrow>
         seasonality p \<noteq> ''fallback''
         \<and> (\<forall>now n res. generate_fallback_forecast now n = Inr res \<longrightarrow>
               p \<noteq> response (business_id request) res res))"
proof -
  have a: "predict_forecast lib request = ForecastError e ''Failed to generate forecast''"
    if "income_history request \<noteq> []"
      and "to_datetime_column (to_datetime lib) (map tx_date (income_history request)) = Inr dates"
      and "prophet_fit lib (seasonality_selection (map2 to_row (income_history request) dates))
            (map2 to_row (income_history request) dates) = Inl e"
    for dates e
    using history_forecast_fit_raises [OF that] by (rule predict_forecast_income_raises)
  have b: "seasonality p \<noteq> ''fallback''" if "predict_forecast lib request = Forecast p" for p
  proof -
    from predict_forecast_Forecast [OF that] obtain income_res expense_res where
      "history_forecast lib (income_history request) (req_days request) = Inr income_res"
      "p = response (business_id request) income_res expense_res"
      by blast
    with history_forecast_mode [of lib "income_history request" "req_days request" income_res]
    show ?thesis
      by (auto simp: response_def)
  qed
  have c: "p \<noteq> response (business_id request) res res"
    if "predict_forecast lib request = Forecast p" "generate_fallback_forecast now n = Inr res"
    for p now n res
  proof -
    from that(2) have "seasonality_mode res = ''fallback''"
      by (auto simp: generate_fallback_forecast_def split: sum.splits)
    with b [OF that(1)] show ?thesis
      by (auto simp: response_def)
  qed
  from a b c show ?thesis by blast
qed

theorem insufficient_data_gives_error_payload_witness:
  "predict_forecast sample_libraries
     (sample_request [tx (Some ''sales'') 100 ''2024-01-01''] [] 30)
   = ForecastError ValueError ''Failed to generate forecast''"
proof -
  let ?request = "sample_request [tx (Some ''sales'') 100 ''2024-01-01''] [] 30"
  let ?dates = "[19723 * ns_per_day]"
  have ne: "income_history ?request \<noteq> []"
    by (simp add: sample_request_def)
  have parse: "to_datetime_column (to_datetime sample_libraries)
                 (map tx_date (income_history ?request)) = Inr ?dates"
    by (simp add: sample_request_def sample_libraries_def sample_dates_def tx_def)
  have fit: "prophet_fit sample_libraries
               (seasonality_selection (map2 to_row (income_history ?request) ?dates))
               (map2 to_row (income_history ?request) ?dates) = Inl ValueError"
    by (simp add: sample_request_def sample_libraries_def)
  from insufficient_data_gives_error_payload [of ?request sample_libraries] ne parse fit
  show ?thesis by blast
qed

text \<open>
  C7. An empty history gets the result with no predictions, trend 0.0 and mode \<open>none\<close>,
  which is never an output of the fallback generator. In a forecast answer, an empty income
  history shows as an empty income forecast, income trend 0.0 and seasonality \<open>none\<close>,
  an empty expense history as an empty expense forecast and expense trend 0.0.
\<close>

theorem empty_history_result:
  "history_forecast lib [] n
     = Inr \<lparr>predictions = [], trend_percentage = Finite 0, seasonality_mode = ''none''\<rparr>
   \<and> (\<forall>now k. generate_fallback_forecast now k \<noteq> history_forecast lib [] n)
   \<and> (\<forall>p. income_history request = [] \<and> predict_forecast lib request = Forecast p \<longrightarrow>
         income_forecast p = [] \<and> income_trend p = Finite 0 \<and> seasonality p = ''none'')
   \<and> (\<forall>p. expense_history request = [] \<and> predict_forecast lib request = Forecast p \<longrightarrow>
         expense_forecast p = [] \<and> expense_trend p = Finite 0)"
proof -
  have a: "history_forecast lib [] n
     = Inr \<lparr>predictions = [], trend_percentage = Finite 0, seasonality_mode = ''none''\<rparr>"
    by (simp add: history_forecast_def)
  have b: "generate_fallback_forecast now k \<noteq> history_forecast lib [] n" for now k
    by (auto simp: a generate_fallback_forecast_def split: sum.splits)
  have c: "income_forecast p = [] \<and> income_trend p = Finite 0 \<and> seasonality p = ''none''"
    if "income_history request = []" "predict_forecast lib request = Forecast p" for p
    using predict_forecast_Forecast [OF that(2)] that(1)
    by (auto simp: history_forecast_empty none_result_def response_def)
  have d: "expense_forecast p = [] \<and> expense_trend p = Finite 0"
    if "expense_history request = []" "predict_forecast lib request = Forecast p" for p
    using predict_forecast_Forecast [OF that(2)] that(1)
    by (auto simp: history_forecast_empty none_result_def response_def)
  from a b c d show ?thesis by blast
qed

theorem empty_history_result_witness:
  "income_history (sample_request [] sample_history 2) = []
   \<and> predict_forecast sample_libraries (sample_request [] sample_history 2)
       = Forecast
           \<lparr>fp_business_id = ''b1'',
            income_forecast = [],
            income_trend = Finite 0,
            expense_forecast =
              [\<lparr>fp_ds = Timestamp (19725 * ns_per_day), yhat = 102, yhat_lower = 92,
                 yhat_upper = 112\<rparr>,
               \<lparr>fp_ds = Timestamp (19726 * ns_per_day), yhat = 103, yhat_lower = 93,
                 yhat_upper = 113\<rparr>],
            expense_trend = Finite (98 / 100),
            seasonality = ''none'',
            fp_message = ''Advanced forecast generated successfully''\<rparr>
   \<and> history_forecast sample_libraries [] 2
       = Inr \<lparr>predictions = [], trend_percentage = Finite 0, seasonality_mode = ''none''\<rparr>"
proof -
  have run: "predict_forecast sample_libraries (sample_request [] sample_history 2)
       = Forecast
           \<lparr>fp_business_id = ''b1'',
            income_forecast = [],
            income_trend = Finite 0,
            expense_forecast =
              [\<lparr>fp_ds = Timestamp (19725 * ns_per_day), yhat = 102, yhat_lower = 92,
                 yhat_upper = 112\<rparr>,
               \<lparr>fp_ds = Timestamp (19726 * ns_per_day), yhat = 103, yhat_lower = 93,
                 yhat_upper = 113\<rparr>],
            expense_trend = Finite (98 / 100),
            seasonality = ''none'',
            fp_message = ''Advanced forecast generated successfully''\<rparr>"
    by code_simp
  have emp: "income_history (sample_request [] sample_history 2) = []"
    by (simp add: sample_request_def)
  from empty_history_result [of sample_libraries 2 "sample_request [] sample_history 2"] run emp
  show ?thesis
    by simp
qed

text \<open>
  C9. The seasonality of a forecast answer is the mode of the income result; replacing the
  expense history by any other leaves it unchanged. With an empty income history and a
  non-empty expense history the answer says \<open>none\<close> although its expense forecast comes
  from a fitted model whose own mode is \<open>weekly\<close> or \<open>yearly\<close>.
\<close>

theorem seasonality_from_income_only:
  "(\<forall>p. predict_forecast lib request = Forecast p \<longrightarrow>
      (\<exists>income_res.
         history_forecast lib (income_history request) (req_days request) = Inr income_res
         \<and> seasonality p = seasonality_mode income_res))
   \<and> (\<forall>p p' expenses.
         predict_forecast lib request = Forecast p
         \<and> predict_forecast lib (request\<lparr>expense_history := expenses\<rparr>) = Forecast p' \<longrightarrow>
         seasonality p' = seasonality p)
   \<and> (\<forall>p. income_history request = [] \<and> expense_history request \<noteq> []
         \<and> predict_forecast lib request = Forecast p \<longrightarrow>
         seasonality p = ''none''
         \<and> (\<exists>expense_res.
               history_forecast lib (expense_history request) (req_days request) = Inr expense_res
               \<and> expense_forecast p = predictions expense_res
               \<and> (seasonality_mode expense_res = ''weekly''
                    \<or> seasonality_mode expense_res = ''yearly'')))"
proof -
  have a: "\<exists>income_res.
         history_forecast lib (income_history request) (req_days request) = Inr income_res
         \<and> seasonality p = seasonality_mode income_res"
    if "predict_forecast lib request = Forecast p" for p
    using predict_forecast_Forecast [OF that] by (auto simp: response_def)
  have b: "seasonality p' = seasonality p"
    if "predict_forecast lib request = Forecast p"
      "predict_forecast lib (request\<lparr>expense_history := expenses\<rparr>) = Forecast p'"
    for p p' expenses
    using predict_forecast_Forecast [OF that(1)] predict_forecast_Forecast [OF that(2)]
    by (auto simp: response_def)
  have c: "seasonality p = ''none''
         \<and> (\<exists>expense_res.
               history_forecast lib (expense_history request) (req_days request) = Inr expense_res
               \<and> expense_forecast p = predictions expense_res
               \<and> (seasonality_mode expense_res = ''weekly''
                    \<or> seasonality_mode expense_res = ''yearly''))"
    if "income_history request = []" "expense_history request \<noteq> []"
      "predict_forecast lib request = Forecast p" for p
  proof -
    from predict_forecast_Forecast [OF that(3)] obtain income_res expense_res where
      r: "history_forecast lib (income_history request) (req_days request) = Inr income_res"
         "history_forecast lib (expense_history request) (req_days request) = Inr expense_res"
         "p = response (business_id request) income_res expense_res"
      by blast
    from r(1) that(1) have "income_res = none_result"
      by (simp add: history_forecast_empty)
    with r(3) have "seasonality p = ''none''" "expense_forecast p = predictions expense_res"
      by (simp_all add: response_def none_result_def)
    with r(2) history_forecast_nonempty_mode [OF that(2) r(2)] show ?thesis
      by blast
  qed
  from a b c show ?thesis by blast
qed

theorem seasonality_from_income_only_witness:
  "income_history (sample_request [] long_history 1) = []
   \<and> expense_history (sample_request [] long_history 1) \<noteq> []
   \<and> history_forecast sample_libraries long_history 1
       = Inr \<lparr>predictions =
                [\<lparr>fp_ds = Timestamp (20241 * ns_per_day), yhat = 618, yhat_lower = 608,
                   yhat_upper = 628\<rparr>],
              trend_percentage = Finite 0,
              seasonality_mode = ''yearly''\<rparr>
   \<and> (\<exists>p. predict_forecast sample_libraries (sample_request [] long_history 1) = Forecast p
          \<and> seasonality p = ''none''
          \<and> expense_forecast p =
                [\<lparr>fp_ds = Timestamp (20241 * ns_per_day), yhat = 618, yhat_lower = 608,
                   yhat_upper = 628\<rparr>])"
proof -
  let ?request = "sample_request [] long_history 1"
  have emp: "income_history ?request = []" and ne: "expense_history ?request \<noteq> []"
    by (simp_all add: sample_request_def long_history_def)
  have ex: "history_forecast sample_libraries long_history 1
       = Inr \<lparr>predictions =
                [\<lparr>fp_ds = Timestamp (20241 * ns_per_day), yhat = 618, yhat_lower = 608,
                   yhat_upper = 628\<rparr>],
              trend_percentage = Finite 0,
              seasonality_mode = ''yearly''\<rparr>"
    by code_simp
  have run: "predict_forecast sample_libraries ?request
       = Forecast
           (response ''b1'' none_result
              \<lparr>predictions =
                [\<lparr>fp_ds = Timestamp (20241 * ns_per_day), yhat = 618, yhat_lower = 608,
                   yhat_upper = 628\<rparr>],
              trend_percentage = Finite 0,
              seasonality_mode = ''yearly''\<rparr>)"
    using ex by (simp add: predict_forecast_def sample_request_def history_forecast_empty
        response_def)
  from seasonality_from_income_only [of sample_libraries ?request] emp ne run
  have "seasonality (response ''b1'' none_result
              \<lparr>predictions =
                [\<lparr>fp_ds = Timestamp (20241 * ns_per_day), yhat = 618, yhat_lower = 608,
                   yhat_upper = 628\<rparr>],
              trend_percentage = Finite 0,
              seasonality_mode = ''yearly''\<rparr>) = ''none''"
    by blast
  with emp ne ex run show ?thesis
    by (simp add: response_def)
qed

subsection \<open>The fallback generator\<close>

lemma us_per_day_pos: "0 < us_per_day"
  by (simp add: us_per_day_def)

lemma day_of_add: "day_of (t + i * us_per_day) = day_of t + i"
  using us_per_day_pos by (simp add: day_of_def)

lemma add_days_ok:
  assumes "0 \<le> day_of start" and "1 \<le> i" and "day_of start + i \<le> max_day"
  shows "add_days start i = Inr (start + i * us_per_day)"
proof -
  from assms have "\<bar>i\<bar> \<le> 999999999"
    by (simp add: max_day_def)
  with assms show ?thesis
    by (simp add: add_days_def Let_def day_of_add)
qed

lemma fallback_loop_ok:
  assumes "0 \<le> day_of start" and "\<forall>i \<in> set js. 1 \<le> i \<and> day_of start + i \<le> max_day"
  shows "fallback_loop start js acc
         = Inr (acc @ map (\<lambda>i. fallback_point (day_of start + i)) js)"
  using assms(2)
proof (induction js arbitrary: acc)
  case Nil
  then show ?case by simp
next
  case (Cons j js)
  then have "add_days start j = Inr (start + j * us_per_day)"
    using add_days_ok [OF assms(1), of j] by simp
  with Cons show ?case
    by (simp add: day_of_add fallback_point_def)
qed

lemma generate_fallback_forecast_ok:
  assumes "0 \<le> day_of now" and "day_of now + n \<le> max_day"
  shows "generate_fallback_forecast now n
         = Inr \<lparr>predictions = map (\<lambda>i. fallback_point (day_of now + i)) [1..n],
                trend_percentage = Finite 0,
                seasonality_mode = ''fallback''\<rparr>"
proof -
  have "\<forall>i \<in> set [1..n]. 1 \<le> i \<and> day_of now + i \<le> max_day"
    using assms(2) by auto
  from fallback_loop_ok [OF assms(1) this, of "[]"] show ?thesis
    by (simp add: generate_fallback_forecast_def)
qed

text \<open>
  C8. Called at a time \<open>now\<close> with a horizon \<open>n\<close> whose last date still exists
  (\<open>now\<close> plus \<open>n\<close> days is not past the year 9999), the fallback generator returns
  \<open>n\<close> points (none for \<open>n \<le> 0\<close>): point \<open>k\<close> is dated \<open>k + 1\<close> days after the
  day of \<open>now\<close> and has the estimate 1000 with the bounds 800 and 1200; the trend is 0.0
  and the mode \<open>fallback\<close>. A second call on the same day with the same horizon returns
  the same result.
\<close>

theorem fallback_forecast_shape:
  assumes "0 \<le> day_of now" and "day_of now + n \<le> max_day"
  shows "\<exists>res. generate_fallback_forecast now n = Inr res
           \<and> length (predictions res) = nat n
           \<and> (\<forall>k < nat n. predictions res ! k
                 = \<lparr>fp_ds = DateString (day_of now + 1 + int k),
                    yhat = 1000, yhat_lower = 800, yhat_upper = 1200\<rparr>)
           \<and> trend_percentage res = Finite 0
           \<and> seasonality_mode res = ''fallback''
           \<and> (\<forall>now'. day_of now' = day_of now \<longrightarrow>
                 generate_fallback_forecast now' n = Inr res)"
proof -
  let ?res = "\<lparr>predictions = map (\<lambda>i. fallback_point (day_of now + i)) [1..n],
                trend_percentage = Finite 0,
                seasonality_mode = ''fallback''\<rparr>"
  have run: "generate_fallback_forecast now n = Inr ?res"
    using assms by (rule generate_fallback_forecast_ok)
  have len: "length (predictions ?res) = nat n"
    by simp
  have nth: "predictions ?res ! k
        = \<lparr>fp_ds = DateString (day_of now + 1 + int k),
           yhat = 1000, yhat_lower = 800, yhat_upper = 1200\<rparr>" if "k < nat n" for k
    using that by (simp add: fallback_point_def)
  have same: "generate_fallback_forecast now' n = Inr ?res" if "day_of now' = day_of now" for now'
    using generate_fallback_forecast_ok [of now' n] assms that by simp
  from run len nth same show ?thesis
    by (intro exI [of _ ?res]) simp
qed

theorem fallback_forecast_shape_witness:
  "0 \<le> day_of (739000 * us_per_day + 45296000000)
   \<and> day_of (739000 * us_per_day + 45296000000) + 3 \<le> max_day
   \<and> (\<exists>res. generate_fallback_forecast (739000 * us_per_day + 45296000000) 3 = Inr res
          \<and> length (predictions res) = 3
          \<and> predictions res ! 0
               = \<lparr>fp_ds = DateString 739001, yhat = 1000, yhat_lower = 800, yhat_upper = 1200\<rparr>
          \<and> predictions res ! 2
               = \<lparr>fp_ds = DateString 739003, yhat = 1000, yhat_lower = 800, yhat_upper = 1200\<rparr>
          \<and> trend_percentage res = Finite 0
          \<and> seasonality_mode res = ''fallback''
          \<and> generate_fallback_forecast (739000 * us_per_day) 3 = Inr res)"
proof -
  let ?now = "739000 * us_per_day + 45296000000"
  have day: "day_of ?now = 739000" "day_of (739000 * us_per_day) = 739000"
    by (simp_all add: day_of_def us_per_day_def)
  have pre: "0 \<le> day_of ?now" "day_of ?now + 3 \<le> max_day"
    by (simp_all add: day max_day_def)
  from fallback_forecast_shape [OF pre] obtain res where
    res: "generate_fallback_forecast ?now 3 = Inr res"
      "length (predictions res) = nat 3"
      "\<forall>k < nat 3. predictions res ! k
         = \<lparr>fp_ds = DateString (day_of ?now + 1 + int k),
            yhat = 1000, yhat_lower = 800, yhat_upper = 1200\<rparr>"
      "trend_percentage res = Finite 0"
      "seasonality_mode res = ''fallback''"
      "\<forall>now'. day_of now' = day_of ?now \<longrightarrow> generate_fallback_forecast now' 3 = Inr res"
    by blast
  from res(6) day have other: "generate_fallback_forecast (739000 * us_per_day) 3 = Inr res"
    by simp
  from res(3) have p0: "predictions res ! 0
      = \<lparr>fp_ds = DateString 739001, yhat = 1000, yhat_lower = 800, yhat_upper = 1200\<rparr>"
    by (simp add: day)
  have "(2::nat) < nat 3" by simp
  with res(3) have "predictions res ! 2
      = \<lparr>fp_ds = DateString (day_of ?now + 1 + int 2),
            yhat = 1000, yhat_lower = 800, yhat_upper = 1200\<rparr>"
    by blast
  then have p2: "predictions res ! 2
      = \<lparr>fp_ds = DateString 739003, yhat = 1000, yhat_lower = 800, yhat_upper = 1200\<rparr>"
    by (simp add: day)
  from pre res(1,2,4,5) other p0 p2 show ?thesis
    by auto
qed

section \<open>Insights: properties\<close>






lemma keyed_keys:
  "map fst (List.map_filter (\<lambda>t. map_option (\<lambda>d. (d, tx_amount t)) (tx_description t)) rows)
   = List.map_filter tx_description rows"
  by (induction rows) (auto simp: map_filter_def)

lemma groupby_sum_keys:
  "set (map fst (groupby_sum rows)) = {d. Some d \<in> tx_description ` set rows}"
proof -
  have "set (map fst (groupby_sum rows)) = set (List.map_filter tx_description rows)"
    by (simp add: groupby_sum_def Let_def comp_def keyed_keys [simplified comp_def])
  also have "\<dots> = {d. Some d \<in> tx_description ` set rows}"
  proof (induction rows)
    case Nil
    then show ?case by (simp add: map_filter_def)
  next
    case (Cons t rows)
    then show ?case
      by (cases "tx_description t") (auto simp: map_filter_def)
  qed
  finally show ?thesis .
qed










end
